theory Spec2Isabelle
  imports Main
begin

section \<open>The containers\<close>

text \<open>
  The three container types of the library, as tagged unions.
  \<^item> \<open>Maybe<T> = Nothing | Just<T>\<close> (maybe.ts);
  \<^item> \<open>Either<A, B> = Left<A> | Right<B>\<close> (either.ts);
  \<^item> \<open>These<A, B> = First<A> | Second<B> | Both<A, B>\<close> (these.ts).
  The source discriminates on a \<open>kind\<close> or \<open>type\<close> field and reads the payload
  after the test; the model dispatches on the constructor, in the order of the source's
  tests.
\<close>

datatype 'a maybe = Nothing | Just 'a

datatype ('a, 'b) either = Left 'a | Right 'b

datatype ('a, 'b) these = First 'a | Second 'b | Both 'a 'b

text \<open>\<open>Ordering\<close> of cmp.ts: the result of a comparison.\<close>

datatype ordering = Less | Equal | Greater

text \<open>
  Modelled from the spec: the \<open>Semigroup\<close> instance of \<open>Ordering\<close> lives in cmp.ts, which
  is not among the sources. The specification asks that two \<open>Paired\<close> values compare
  "lexicographically by \<open>F\<close> then \<open>S\<close>", and these.ts computes that comparison as
  \<open>cmb(cmp(a, b), cmp(x, y))\<close>; so the combination of two orderings is the first one unless
  it is \<open>equal\<close>, and the second one then.
\<close>

fun ordering_cmb :: "ordering \<Rightarrow> ordering \<Rightarrow> ordering" where
  "ordering_cmb Equal that = that"
| "ordering_cmb this that = this"

text \<open>
  The element protocols \<open>cmp(x, y) = x[Ord.cmp](y)\<close> and \<open>cmb(x, y) = x[Semigroup.cmb](y)\<close>
  dispatch on the payload's own method. The model passes that method as a function: every
  operation below that needs an \<open>Ord\<close> or a \<open>Semigroup\<close> payload takes its \<open>cmp\<close> or \<open>cmb\<close> as
  an argument.
\<close>

section \<open>These (these.ts)\<close>

fun here :: "('a, 'b) these \<Rightarrow> bool" where
  "here (First _) = True"
| "here _ = False"

fun there :: "('a, 'b) these \<Rightarrow> bool" where
  "there (Second _) = True"
| "there _ = False"

fun paired :: "('a, 'b) these \<Rightarrow> bool" where
  "paired (Both _ _) = True"
| "paired _ = False"

text \<open>\<open>These.Syntax[Ord.cmp]\<close>.\<close>

fun these_cmp ::
  "('a \<Rightarrow> 'a \<Rightarrow> ordering) \<Rightarrow> ('b \<Rightarrow> 'b \<Rightarrow> ordering) \<Rightarrow>
   ('a, 'b) these \<Rightarrow> ('a, 'b) these \<Rightarrow> ordering" where
  "these_cmp cmpA cmpB (First a) that =
     (case that of First b \<Rightarrow> cmpA a b | _ \<Rightarrow> Less)"
| "these_cmp cmpA cmpB (Second x) that =
     (case that of Second y \<Rightarrow> cmpB x y | First _ \<Rightarrow> Greater | Both _ _ \<Rightarrow> Less)"
| "these_cmp cmpA cmpB (Both a x) that =
     (case that of Both b y \<Rightarrow> ordering_cmb (cmpA a b) (cmpB x y) | _ \<Rightarrow> Greater)"

text \<open>\<open>These.Syntax[Semigroup.cmb]\<close>.\<close>

fun these_cmb ::
  "('a \<Rightarrow> 'a \<Rightarrow> 'a) \<Rightarrow> ('b \<Rightarrow> 'b \<Rightarrow> 'b) \<Rightarrow>
   ('a, 'b) these \<Rightarrow> ('a, 'b) these \<Rightarrow> ('a, 'b) these" where
  "these_cmb cmbA cmbB (First a) that =
     (case that of
        First b \<Rightarrow> First (cmbA a b)
      | Second y \<Rightarrow> Both a y
      | Both b y \<Rightarrow> Both (cmbA a b) y)"
| "these_cmb cmbA cmbB (Second x) that =
     (case that of
        First b \<Rightarrow> Both b x
      | Second y \<Rightarrow> Second (cmbB x y)
      | Both b y \<Rightarrow> Both b (cmbB x y))"
| "these_cmb cmbA cmbB (Both a x) that =
     (case that of
        First b \<Rightarrow> Both (cmbA a b) x
      | Second y \<Rightarrow> Both a (cmbB x y)
      | Both b y \<Rightarrow> Both (cmbA a b) (cmbB x y))"

text \<open>\<open>These.Syntax.mapFirst\<close>: the \<open>Second\<close> test comes first, as in the source.\<close>

fun these_mapFirst :: "('a, 'b) these \<Rightarrow> ('a \<Rightarrow> 'c) \<Rightarrow> ('c, 'b) these" where
  "these_mapFirst (Second x) f = Second x"
| "these_mapFirst (First a) f = First (f a)"
| "these_mapFirst (Both a x) f = Both (f a) x"

text \<open>\<open>These.Syntax.map\<close>.\<close>

fun these_map :: "('a, 'b) these \<Rightarrow> ('b \<Rightarrow> 'd) \<Rightarrow> ('a, 'd) these" where
  "these_map (First a) f = First a"
| "these_map (Second x) f = Second (f x)"
| "these_map (Both a x) f = Both a (f x)"

text \<open>
  \<open>These.Syntax.flatMap\<close>; \<open>cmb\<close> is the \<open>Semigroup\<close> method of the first payload.
\<close>

fun these_flatMap ::
  "('e \<Rightarrow> 'e \<Rightarrow> 'e) \<Rightarrow> ('e, 'a) these \<Rightarrow> ('a \<Rightarrow> ('e, 'b) these) \<Rightarrow> ('e, 'b) these" where
  "these_flatMap cmb (First e) f = First e"
| "these_flatMap cmb (Second x) f = f x"
| "these_flatMap cmb (Both e x) f = these_mapFirst (f x) (\<lambda>y. cmb e y)"

text \<open>
  \<open>doImpl\<close>, \<open>doThese\<close> and \<open>reduceThese\<close> follow the model of generators below.
\<close>

section \<open>Either (either.ts, the file src/unnamed/part_000)\<close>

text \<open>\<open>Either.Syntax[Ord.cmp]\<close>.\<close>

fun either_cmp ::
  "('a \<Rightarrow> 'a \<Rightarrow> ordering) \<Rightarrow> ('b \<Rightarrow> 'b \<Rightarrow> ordering) \<Rightarrow>
   ('a, 'b) either \<Rightarrow> ('a, 'b) either \<Rightarrow> ordering" where
  "either_cmp cmpA cmpB (Left a) that =
     (case that of Left b \<Rightarrow> cmpA a b | Right _ \<Rightarrow> Less)"
| "either_cmp cmpA cmpB (Right x) that =
     (case that of Right y \<Rightarrow> cmpB x y | Left _ \<Rightarrow> Greater)"

text \<open>
  \<open>Either.Syntax.flatMap\<close>: \<open>this.isLeft() ? this : f(this.val)\<close>. The callback of the source
  may have side effects (a counting stub increments a counter), so it is modelled with the
  state of the world made explicit: it takes the state \<open>w\<close> and returns its result with the
  new state. Where \<open>flatMap\<close> does not call \<open>f\<close>, the state comes back as it went in.
\<close>

fun either_flatMap_st ::
  "('e, 't) either \<Rightarrow> ('t \<Rightarrow> 'w \<Rightarrow> ('e, 't1) either \<times> 'w) \<Rightarrow> 'w \<Rightarrow> ('e, 't1) either \<times> 'w" where
  "either_flatMap_st (Left e) f w = (Left e, w)"
| "either_flatMap_st (Right val) f w = f val w"

text \<open>\<open>flatMap\<close> with a callback that has no side effect.\<close>

fun either_flatMap :: "('e, 't) either \<Rightarrow> ('t \<Rightarrow> ('e, 't1) either) \<Rightarrow> ('e, 't1) either" where
  "either_flatMap (Left e) f = Left e"
| "either_flatMap (Right val) f = f val"

text \<open>\<open>Either.Syntax.map\<close>, \<open>zipWith\<close> and \<open>[Semigroup.cmb]\<close>, each through \<open>flatMap\<close>.\<close>

definition either_map :: "('a, 'b) either \<Rightarrow> ('b \<Rightarrow> 'b1) \<Rightarrow> ('a, 'b1) either" where
  "either_map this f = either_flatMap this (\<lambda>val. Right (f val))"

definition either_zipWith ::
  "('e, 't) either \<Rightarrow> ('e, 't1) either \<Rightarrow> ('t \<Rightarrow> 't1 \<Rightarrow> 't2) \<Rightarrow> ('e, 't2) either" where
  "either_zipWith this that f =
     either_flatMap this (\<lambda>lhs. either_map that (\<lambda>rhs. f lhs rhs))"

definition either_cmb ::
  "('t \<Rightarrow> 't \<Rightarrow> 't) \<Rightarrow> ('e, 't) either \<Rightarrow> ('e, 't) either \<Rightarrow> ('e, 't) either" where
  "either_cmb cmb this that = either_zipWith this that cmb"

section \<open>Maybe (maybe.ts)\<close>

text \<open>\<open>Maybe.Syntax[Ord.cmp]\<close>.\<close>

fun maybe_cmp :: "('t \<Rightarrow> 't \<Rightarrow> ordering) \<Rightarrow> 't maybe \<Rightarrow> 't maybe \<Rightarrow> ordering" where
  "maybe_cmp cmp Nothing that = (case that of Nothing \<Rightarrow> Equal | Just _ \<Rightarrow> Less)"
| "maybe_cmp cmp (Just x) that = (case that of Nothing \<Rightarrow> Greater | Just y \<Rightarrow> cmp x y)"

text \<open>\<open>Maybe.Syntax[Semigroup.cmb]\<close>: the \<open>isJust\<close> test on the receiver comes first.\<close>

fun maybe_cmb :: "('t \<Rightarrow> 't \<Rightarrow> 't) \<Rightarrow> 't maybe \<Rightarrow> 't maybe \<Rightarrow> 't maybe" where
  "maybe_cmb cmb (Just x) that = (case that of Just y \<Rightarrow> Just (cmb x y) | Nothing \<Rightarrow> Just x)"
| "maybe_cmb cmb Nothing that = that"

text \<open>\<open>Maybe.Syntax.andThen\<close> and \<open>map\<close>.\<close>

fun maybe_andThen :: "'t maybe \<Rightarrow> ('t \<Rightarrow> 't1 maybe) \<Rightarrow> 't1 maybe" where
  "maybe_andThen Nothing f = Nothing"
| "maybe_andThen (Just val) f = f val"

definition maybe_map :: "'t maybe \<Rightarrow> ('t \<Rightarrow> 't1) \<Rightarrow> 't1 maybe" where
  "maybe_map this f = maybe_andThen this (\<lambda>val. Just (f val))"

section \<open>Generators\<close>

text \<open>
  A JavaScript generator \<open>Generator<Y, R, V>\<close>, seen from the code that drives it, as a tree
  of resumptions. After a call of \<open>next\<close> or \<open>return\<close> the generator
  \<^item> has finished with a value: \<open>Done r\<close>, the result \<open>{done: true, value: r}\<close>; or
  \<^item> is suspended at a \<open>yield\<close>: \<open>Yield y k h\<close>, the result \<open>{done: false, value: y}\<close>, where
    \<open>k v\<close> is what \<open>next(v)\<close> continues with and \<open>h x\<close> is what \<open>return(x)\<close> continues with; or
  \<^item> runs one cleanup action on its way and goes on: \<open>Cleanup g\<close>. This is the only side
    effect of a generator that the model records; the drivers below count these actions.

  At a \<open>yield\<close> outside every \<open>try\<close>, \<open>return(x)\<close> finishes the generator with \<open>x\<close>: \<open>h = Done\<close>.
  Inside \<open>try ... finally\<close>, \<open>return(x)\<close> runs the \<open>finally\<close> block, which may do a cleanup,
  yield again, or return a value of its own.

  The type is inductive: it holds the generators that finish after finitely many
  resumptions, whatever they are sent. A generator that yields for ever is outside the
  model (the loops of the drivers would not end on it).
\<close>

datatype ('y, 'v, 'r) gen =
    Done 'r
  | Yield 'y "'v \<Rightarrow> ('y, 'v, 'r) gen" "'r \<Rightarrow> ('y, 'v, 'r) gen"
  | Cleanup "('y, 'v, 'r) gen"

text \<open>
  The body of a generator function made of \<open>yield*\<close> and \<open>return\<close> statements, with no \<open>try\<close>
  and no side effect: \<open>Return r\<close> is \<open>return r\<close>, and \<open>YieldStar y k\<close> is
  \<open>const v = yield* y; ...\<close> with \<open>k v\<close> the rest of the body. The iterator of a container
  (\<open>*[Symbol.iterator]() { return (yield this); }\<close>) yields the container once and returns
  what it is sent, so \<open>yield* y\<close> suspends once with \<open>y\<close>; \<open>generator\<close> is the generator
  object such a body gives.
\<close>

datatype ('y, 'v, 'r) body = Return 'r | YieldStar 'y "'v \<Rightarrow> ('y, 'v, 'r) body"

primrec generator :: "('y, 'v, 'r) body \<Rightarrow> ('y, 'v, 'r) gen" where
  "generator (Return r) = Done r"
| "generator (YieldStar y k) = Yield y (\<lambda>v. generator (k v)) Done"

text \<open>
  \<open>try { g } finally { fin }\<close> inside a generator function. When \<open>g\<close> finishes with \<open>r\<close>, by
  itself or because \<open>return(r)\<close> was called at one of its yields, the \<open>finally\<close> block runs:
  \<open>fin r\<close> is the block with the pending return value \<open>r\<close>.
\<close>

primrec try_finally ::
  "('y, 'v, 'r) gen \<Rightarrow> ('r \<Rightarrow> ('y, 'v, 'r) gen) \<Rightarrow> ('y, 'v, 'r) gen" where
  "try_finally (Done r) fin = fin r"
| "try_finally (Yield y k h) fin =
     Yield y (\<lambda>v. try_finally (k v) fin) (\<lambda>x. try_finally (h x) fin)"
| "try_finally (Cleanup g) fin = Cleanup (try_finally g fin)"

text \<open>The block \<open>finally { cleanup(); }\<close>: one cleanup action, then the pending return.\<close>

definition finally_cleanup :: "'r \<Rightarrow> ('y, 'v, 'r) gen" where
  "finally_cleanup r = Cleanup (Done r)"

section \<open>The comprehension evaluators\<close>

text \<open>
  Each evaluator is the \<open>while (!nxt.done)\<close> loop of the source, as a recursion on the
  generator: its arguments after the generator are the local variables of the loop, and
  the last one, \<open>n\<close>, counts the cleanup actions the generator has run so far. Each returns
  its result with that count.
\<close>

subsection \<open>\<open>Either.step\<close>\<close>

text \<open>
  The generator handed to \<open>step\<close> returns \<open>TReturn | typeof halt\<close>: \<open>Halt\<close> is the private
  symbol \<open>halt\<close>, \<open>Val r\<close> a value of the generator's own. \<open>err\<close> is \<open>undefined\<close> (\<open>None\<close>) until
  a \<open>Left\<close> is seen, so the payload of \<open>left(err)\<close> is an \<open>option\<close>.
\<close>

datatype 'r ret = Halt | Val 'r

primrec step_loop ::
  "(('a, 'v) either, 'v, 'r ret) gen \<Rightarrow> 'a option \<Rightarrow> nat \<Rightarrow> ('a option, 'r) either \<times> nat" where
  "step_loop (Done result) err n =
     ((case result of Halt \<Rightarrow> Left err | Val r \<Rightarrow> Right r), n)"
| "step_loop (Yield either k h) err n =
     (case either of
        Right val \<Rightarrow> step_loop (k val) err n
      | Left val \<Rightarrow> step_loop (h Halt) (Some val) n)"
| "step_loop (Cleanup g) err n = step_loop g err (Suc n)"

definition step ::
  "(('a, 'v) either, 'v, 'r ret) gen \<Rightarrow> ('a option, 'r) either \<times> nat" where
  "step gen = step_loop gen None 0"

subsection \<open>\<open>Maybe.go\<close>\<close>

text \<open>
  \<open>go\<close> halts the generator with \<open>gen.return(undefined as any)\<close>. The argument \<open>undef\<close> is
  that value \<open>undefined\<close> at type \<open>TReturn\<close>.
\<close>

primrec go_loop ::
  "'r \<Rightarrow> ('v maybe, 'v, 'r) gen \<Rightarrow> bool \<Rightarrow> nat \<Rightarrow> 'r maybe \<times> nat" where
  "go_loop undef (Done val) isHalted n = ((if isHalted then Nothing else Just val), n)"
| "go_loop undef (Yield maybe k h) isHalted n =
     (case maybe of
        Just val \<Rightarrow> go_loop undef (k val) isHalted n
      | Nothing \<Rightarrow> go_loop undef (h undef) True n)"
| "go_loop undef (Cleanup g) isHalted n = go_loop undef g isHalted (Suc n)"

definition go :: "'r \<Rightarrow> ('v maybe, 'v, 'r) gen \<Rightarrow> 'r maybe \<times> nat" where
  "go undef gen = go_loop undef gen False 0"

text \<open>
  Whether \<open>go\<close> meets an absent \<open>Maybe\<close> while it drives the generator with \<open>next\<close>.
\<close>

primrec yields_Nothing :: "('v maybe, 'v, 'r) gen \<Rightarrow> bool" where
  "yields_Nothing (Done val) = False"
| "yields_Nothing (Yield maybe k h) =
     (case maybe of Just val \<Rightarrow> yields_Nothing (k val) | Nothing \<Rightarrow> True)"
| "yields_Nothing (Cleanup g) = yields_Nothing g"

subsection \<open>\<open>doImpl\<close>, \<open>doThese\<close> and \<open>reduceThese\<close> (these.ts)\<close>

text \<open>
  The generator yields pairs \<open>[these, uid]\<close> whose second component is always the constant
  \<open>These.uid\<close>; the model yields the \<open>These\<close>. The accumulator \<open>e\<close> is \<open>undefined\<close> (\<open>None\<close>)
  until a \<open>Both\<close> is seen; a \<open>Semigroup\<close> value is an object, so the test \<open>e ? ... : ...\<close> is
  the test that \<open>e\<close> is defined. On a \<open>First\<close> the source returns at once: it does not call
  \<open>nxs.return\<close>.
\<close>

primrec doImpl_loop ::
  "('e \<Rightarrow> 'e \<Rightarrow> 'e) \<Rightarrow> (('e, 'v) these, 'v, 'a) gen \<Rightarrow> 'e option \<Rightarrow> nat \<Rightarrow>
   ('e, 'a) these \<times> nat" where
  "doImpl_loop cmb (Done a) e n =
     ((case e of Some e' \<Rightarrow> Both e' a | None \<Rightarrow> Second a), n)"
| "doImpl_loop cmb (Yield t k h) e n =
     (case t of
        Second val \<Rightarrow> doImpl_loop cmb (k val) e n
      | Both t_fst t_snd \<Rightarrow>
          doImpl_loop cmb (k t_snd)
            (Some (case e of Some e' \<Rightarrow> cmb e' t_fst | None \<Rightarrow> t_fst)) n
      | First val \<Rightarrow> ((case e of Some e' \<Rightarrow> First (cmb e' val) | None \<Rightarrow> First val), n))"
| "doImpl_loop cmb (Cleanup g) e n = doImpl_loop cmb g e (Suc n)"

definition doImpl ::
  "('e \<Rightarrow> 'e \<Rightarrow> 'e) \<Rightarrow> (('e, 'v) these, 'v, 'a) gen \<Rightarrow> ('e, 'a) these \<times> nat" where
  "doImpl cmb nxs = doImpl_loop cmb nxs None 0"

definition doThese ::
  "('e \<Rightarrow> 'e \<Rightarrow> 'e) \<Rightarrow> (('e, 'v) these, 'v, 'a) gen \<Rightarrow> ('e, 'a) these \<times> nat" where
  "doThese cmb f = doImpl cmb f"

text \<open>
  The generator function of \<open>reduceThese\<close>:
  \<open>let acc = z; for (const x of xs) { acc = yield* f(acc, x); } return acc;\<close>
\<close>

fun reduceThese_body ::
  "('b \<Rightarrow> 'a \<Rightarrow> ('e, 'b) these) \<Rightarrow> 'a list \<Rightarrow> 'b \<Rightarrow> (('e, 'b) these, 'b, 'b) body" where
  "reduceThese_body f [] acc = Return acc"
| "reduceThese_body f (x # xs) acc = YieldStar (f acc x) (\<lambda>acc'. reduceThese_body f xs acc')"

definition reduceThese ::
  "('e \<Rightarrow> 'e \<Rightarrow> 'e) \<Rightarrow> 'a list \<Rightarrow> ('b \<Rightarrow> 'a \<Rightarrow> ('e, 'b) these) \<Rightarrow> 'b \<Rightarrow> ('e, 'b) these \<times> nat" where
  "reduceThese cmb xs f z = doThese cmb (generator (reduceThese_body f xs z))"

text \<open>
  Whether \<open>doImpl\<close> meets a bare \<open>First\<close> while it drives a body.
\<close>

primrec yields_First :: "(('e, 'v) these, 'v, 'a) body \<Rightarrow> bool" where
  "yields_First (Return a) = False"
| "yields_First (YieldStar t k) =
     (case t of
        Second val \<Rightarrow> yields_First (k val)
      | Both t_fst t_snd \<Rightarrow> yields_First (k t_snd)
      | First val \<Rightarrow> True)"

section \<open>AsyncMaybe: concurrent traversal (maybe.ts)\<close>

text \<open>
  How a promise-like settles: fulfilled with a value or rejected with a reason. A promise
  that is still pending is \<open>None\<close> of type \<open>settled option\<close>.
\<close>

datatype ('a, 'x) settled = Fulfilled 'a | Rejected 'x

text \<open>
  The interface \<open>Builder<T, TFinish>\<close> of builder.ts, with the methods \<open>add\<close> and \<open>finish\<close>
  that maybe.ts calls. A builder object holds mutable state; the model passes that state,
  of type \<open>'s\<close>, to the methods and gets the new state back from \<open>add\<close>.
\<close>

record ('t, 's, 'fin) builder =
  add :: "'t \<Rightarrow> 's \<Rightarrow> 's"
  finish :: "'s \<Rightarrow> 'fin"

text \<open>
  Modelled from the spec: \<open>ArrayEntryBuilder\<close> is a class of builder.ts, which is not among
  the sources. The specification describes it as the "array-entry builder keyed by
  original index rather than completion order": \<open>add([idx, val])\<close> stores \<open>val\<close> at index \<open>idx\<close>
  of the builder's array and \<open>finish()\<close> returns the array. A JavaScript array may have
  holes, so it is a list of options, \<open>None\<close> being a hole; an assignment past the end
  extends the array and leaves holes in between.
\<close>

definition array_set :: "'a option list \<Rightarrow> nat \<Rightarrow> 'a \<Rightarrow> 'a option list" where
  "array_set elems idx val =
     (if idx < length elems then elems[idx := Some val]
      else elems @ replicate (idx - length elems) None @ [Some val])"

definition ArrayEntryBuilder :: "(nat \<times> 'a, 'a option list, 'a option list) builder" where
  "ArrayEntryBuilder =
     \<lparr>add = (\<lambda>(idx, val) elems. array_set elems idx val), finish = (\<lambda>elems. elems)\<rparr>"

text \<open>
  The state that the executor of \<open>traverseIntoPar\<close> and its handlers share: the counter
  \<open>remaining\<close>, the state of the builder, and the promise that \<open>traverseIntoPar\<close> returns
  (\<open>None\<close> while it is pending).
\<close>

record ('s, 'fin, 'x) par_state =
  remaining :: int
  builder_state :: 's
  promise :: "('fin maybe, 'x) settled option"

text \<open>
  \<open>resolve\<close> and \<open>reject\<close> of \<open>new Promise((resolve, reject) => ...)\<close>: the first call settles
  the promise, and a later call does nothing.
\<close>

definition resolve ::
  "'fin maybe \<Rightarrow> ('s, 'fin, 'x) par_state \<Rightarrow> ('s, 'fin, 'x) par_state" where
  "resolve maybe st =
     (case promise st of None \<Rightarrow> st\<lparr>promise := Some (Fulfilled maybe)\<rparr> | Some _ \<Rightarrow> st)"

definition reject ::
  "'x \<Rightarrow> ('s, 'fin, 'x) par_state \<Rightarrow> ('s, 'fin, 'x) par_state" where
  "reject reason st =
     (case promise st of None \<Rightarrow> st\<lparr>promise := Some (Rejected reason)\<rparr> | Some _ \<Rightarrow> st)"

text \<open>
  The two handlers that \<open>traverseIntoPar\<close> attaches with \<open>.then(..., reject)\<close> to each
  computation, run when the computation settles with \<open>r\<close>.
\<close>

definition on_settled ::
  "('t1, 's, 'fin) builder \<Rightarrow> ('t1 maybe, 'x) settled \<Rightarrow>
   ('s, 'fin, 'x) par_state \<Rightarrow> ('s, 'fin, 'x) par_state" where
  "on_settled b r st =
     (case r of
        Rejected reason \<Rightarrow> reject reason st
      | Fulfilled maybe \<Rightarrow>
          (case maybe of
             Nothing \<Rightarrow> resolve Nothing st
           | Just val \<Rightarrow>
               (let st1 = st\<lparr>builder_state := add b val (builder_state st),
                              remaining := remaining st - 1\<rparr>
                in if remaining st1 = 0
                   then resolve (Just (finish b (builder_state st1))) st1
                   else st1)))"

text \<open>
  The loop of the executor: \<open>for (const elem of elems) { const idx = remaining;
  remaining++; Promise.resolve(f(elem, idx)).then(...) }\<close>, with \<open>r\<close> the counter \<open>remaining\<close>.
  It returns the counter and the computations it has started, in the order of the
  elements. The value of \<open>f elem idx\<close> in
  the model is how the promise-like that \<open>f\<close> returns will settle.
\<close>

fun dispatch ::
  "('t \<Rightarrow> nat \<Rightarrow> ('t1 maybe, 'x) settled) \<Rightarrow> 't list \<Rightarrow> int \<Rightarrow>
   int \<times> ('t1 maybe, 'x) settled list" where
  "dispatch f [] r = (r, [])"
| "dispatch f (elem # elems) r =
     (let idx = nat r;
          (r', started) = dispatch f elems (r + 1)
      in (r', f elem idx # started))"

text \<open>
  \<open>traverseIntoPar\<close>. A handler attached with \<open>then\<close> never runs before the code that
  attached it has finished, so the whole loop runs first; then the computations settle
  one at a time, and \<open>order\<close> lists them by index in the order in which they settle (each
  at most once; a computation that never settles is not listed; an index that names no
  computation is passed over). The result is the state of the returned promise when all
  the listed computations have settled; \<open>s\<close> is the state of the builder handed in.
\<close>

definition traverseIntoPar ::
  "'t list \<Rightarrow> ('t \<Rightarrow> nat \<Rightarrow> ('t1 maybe, 'x) settled) \<Rightarrow> ('t1, 's, 'fin) builder \<Rightarrow> 's \<Rightarrow>
   nat list \<Rightarrow> ('fin maybe, 'x) settled option" where
  "traverseIntoPar elems f b s order =
     (let (r, started) = dispatch f elems 0;
          st = \<lparr>remaining = r, builder_state = s, promise = None\<rparr>
      in promise
           (foldl (\<lambda>st idx. if idx < length started then on_settled b (started ! idx) st else st)
              st order))"

text \<open>
  \<open>traversePar\<close>: the callback
  \<open>async (elem, idx) => (await f(elem, idx)).map((val) => [idx, val])\<close> rejects when \<open>f\<close>'s
  promise does, and the builder is a new \<open>ArrayEntryBuilder\<close>, whose array is empty.
\<close>

definition traversePar ::
  "'t list \<Rightarrow> ('t \<Rightarrow> nat \<Rightarrow> ('t1 maybe, 'x) settled) \<Rightarrow> nat list \<Rightarrow>
   ('t1 option list maybe, 'x) settled option" where
  "traversePar elems f order =
     traverseIntoPar elems
       (\<lambda>elem idx.
          case f elem idx of
            Fulfilled maybe \<Rightarrow> Fulfilled (maybe_map maybe (\<lambda>val. (idx, val)))
          | Rejected reason \<Rightarrow> Rejected reason)
       ArrayEntryBuilder [] order"

text \<open>
  \<open>allPar\<close> is \<open>traversePar(elems, id)\<close>: each element is itself the computation.
\<close>

definition allPar ::
  "('t maybe, 'x) settled list \<Rightarrow> nat list \<Rightarrow> ('t option list maybe, 'x) settled option" where
  "allPar elems order = traversePar elems (\<lambda>elem idx. elem) order"

text \<open>
  Modelled from the spec: \<open>NoOpBuilder\<close> and \<open>RecordEntryBuilder\<close> are classes of builder.ts,
  which is not among the sources. The specification names them the "no-op builder" and the
  "keyed-entry builder": the first ignores what it is given and finishes with \<open>undefined\<close>,
  the second stores each value under its key and finishes with the record.
\<close>

definition NoOpBuilder :: "('t, unit, unit) builder" where
  "NoOpBuilder = \<lparr>add = (\<lambda>val s. s), finish = (\<lambda>s. ())\<rparr>"

definition RecordEntryBuilder :: "('k \<times> 'v, 'k \<rightharpoonup> 'v, 'k \<rightharpoonup> 'v) builder" where
  "RecordEntryBuilder = \<lparr>add = (\<lambda>(key, val) rec. rec(key \<mapsto> val)), finish = (\<lambda>rec. rec)\<rparr>"

text \<open>\<open>forEachPar\<close>, \<open>traverseEntriesIntoPar\<close>, \<open>traverseEntriesPar\<close> and \<open>allPropsPar\<close>; the
  argument of \<open>allPropsPar\<close> is the list \<open>Object.entries(props)\<close>.\<close>

definition forEachPar ::
  "'t list \<Rightarrow> ('t \<Rightarrow> nat \<Rightarrow> ('t1 maybe, 'x) settled) \<Rightarrow> nat list \<Rightarrow>
   (unit maybe, 'x) settled option" where
  "forEachPar elems f order = traverseIntoPar elems f NoOpBuilder () order"

definition traverseEntriesIntoPar ::
  "('k \<times> 'v) list \<Rightarrow> ('v \<Rightarrow> 'k \<Rightarrow> nat \<Rightarrow> ('v1 maybe, 'x) settled) \<Rightarrow>
   ('k \<times> 'v1, 's, 'fin) builder \<Rightarrow> 's \<Rightarrow> nat list \<Rightarrow> ('fin maybe, 'x) settled option" where
  "traverseEntriesIntoPar entries f b s order =
     traverseIntoPar entries
       (\<lambda>(key, elem) idx.
          case f elem key idx of
            Fulfilled maybe \<Rightarrow> Fulfilled (maybe_map maybe (\<lambda>val. (key, val)))
          | Rejected reason \<Rightarrow> Rejected reason)
       b s order"

definition traverseEntriesPar ::
  "('k \<times> 'v) list \<Rightarrow> ('v \<Rightarrow> 'k \<Rightarrow> nat \<Rightarrow> ('v1 maybe, 'x) settled) \<Rightarrow> nat list \<Rightarrow>
   (('k \<rightharpoonup> 'v1) maybe, 'x) settled option" where
  "traverseEntriesPar entries f order =
     traverseEntriesIntoPar entries f RecordEntryBuilder Map.empty order"

definition allPropsPar ::
  "(string \<times> ('t maybe, 'x) settled) list \<Rightarrow> nat list \<Rightarrow>
   ((string \<rightharpoonup> 't) maybe, 'x) settled option" where
  "allPropsPar props order = traverseEntriesPar props (\<lambda>elem key idx. elem) order"

text \<open>
  Two notions for the proofs about \<open>traversePar\<close>. \<open>filled v D\<close> is the array in which the
  slots of the indices in \<open>D\<close> hold the values \<open>v\<close> and the slots below the largest index of
  \<open>D\<close> that are not in \<open>D\<close> are holes. \<open>par_after v n D\<close> is the shared state of a traversal
  with \<open>n\<close> computations once those in \<open>D\<close> have been fulfilled with the values \<open>v\<close>.
\<close>

definition filled :: "(nat \<Rightarrow> 'a) \<Rightarrow> nat set \<Rightarrow> 'a option list" where
  "filled v D =
     map (\<lambda>i. if i \<in> D then Some (v i) else None) [0..<(if D = {} then 0 else Suc (Max D))]"

definition par_after ::
  "(nat \<Rightarrow> 'a) \<Rightarrow> nat \<Rightarrow> nat set \<Rightarrow> ('a option list, 'a option list, 'x) par_state" where
  "par_after v n D =
     \<lparr>remaining = int n - int (card D), builder_state = filled v D,
      promise = (if card D = n then Some (Fulfilled (Just (filled v D))) else None)\<rparr>"

section \<open>Properties\<close>

subsection \<open>Chaining in These\<close>

text \<open>
  The comprehension \<open>const x = yield* both(e, s); const y = yield* second(s2); return y;\<close>
  keeps the first payload: \<open>doImpl\<close> gives \<open>both(e, s2)\<close>.
\<close>

lemma doImpl_Both_then_Second:
  "doImpl cmb (generator (YieldStar (Both e s) (\<lambda>x. YieldStar (Second s2) Return)))
     = (Both e s2, 0)"
  by (simp add: doImpl_def)

text \<open>
  C1. In the accumulating family, \<open>Both e s\<close> chained with \<open>f\<close> applies \<open>f\<close> to \<open>s\<close>. When
  \<open>f s\<close> is \<open>Second s2\<close> the source returns \<open>Second s2\<close>: \<open>mapFirst\<close> hands a \<open>Second\<close> back
  as it is, so the first payload \<open>e\<close> of the receiver is dropped and the result is not
  \<open>Both e s2\<close>. The two other results of \<open>f s\<close> do combine: \<open>First e2\<close> gives
  \<open>First (cmb e e2)\<close> and \<open>Both e2 s2\<close> gives \<open>Both (cmb e e2) s2\<close>.
\<close>

theorem these_flatMap_Both_Second_drops_first:
  "these_flatMap cmb (Both e s) (\<lambda>x. Second s2) = Second s2
   \<and> these_flatMap cmb (Both e s) (\<lambda>x. Second s2) \<noteq> Both e s2
   \<and> these_flatMap cmb (Both e s) (\<lambda>x. First e2) = First (cmb e e2)
   \<and> these_flatMap cmb (Both e s) (\<lambda>x. Both e2 s2) = Both (cmb e e2) s2"
  by simp

text \<open>
  C3. Reducing \<open>["x", "y"]\<close> over These from \<open>""\<close> with a reducer that returns
  \<open>both("a", acc + x)\<close> gives \<open>both(cmb("a", "a"), "xy")\<close>, whatever the combiner \<open>cmb\<close> of the
  first payload is (and the generator runs no cleanup action).
\<close>

theorem reduceThese_xy:
  "reduceThese cmb [''x'', ''y''] (\<lambda>acc x. Both ''a'' (acc @ x)) ''''
     = (Both (cmb ''a'' ''a'') ''xy'', 0)"
  by (simp add: reduceThese_def doThese_def doImpl_def)

text \<open>
  C4. The combination of two These values, on each of the nine pairs of variants.
\<close>

theorem these_cmb_table:
  "these_cmb cmbA cmbB (First a) (First b) = First (cmbA a b)
 \<and> these_cmb cmbA cmbB (First a) (Second y) = Both a y
 \<and> these_cmb cmbA cmbB (First a) (Both b y) = Both (cmbA a b) y
 \<and> these_cmb cmbA cmbB (Second x) (First b) = Both b x
 \<and> these_cmb cmbA cmbB (Second x) (Second y) = Second (cmbB x y)
 \<and> these_cmb cmbA cmbB (Second x) (Both b y) = Both b (cmbB x y)
 \<and> these_cmb cmbA cmbB (Both a x) (First b) = Both (cmbA a b) x
 \<and> these_cmb cmbA cmbB (Both a x) (Second y) = Both a (cmbB x y)
 \<and> these_cmb cmbA cmbB (Both a x) (Both b y) = Both (cmbA a b) (cmbB x y)"
  by simp

text \<open>
  C5. Comparison of two containers of one family. With different variants, \<open>First\<close> is
  less than \<open>Second\<close> and \<open>Second\<close> less than \<open>Both\<close> (These), \<open>Left\<close> is less than \<open>Right\<close>
  (Either), and \<open>Nothing\<close> is less than \<open>Just\<close> (Maybe). With the same variant the payloads
  are compared; two \<open>Both\<close> values compare by their first payloads and, when these are
  equal, by their second payloads.
\<close>

theorem cmp_variants_then_payloads:
  "these_cmp cmpA cmpB (First a) (Second y) = Less
 \<and> these_cmp cmpA cmpB (First a) (Both b y) = Less
 \<and> these_cmp cmpA cmpB (Second x) (Both b y) = Less
 \<and> these_cmp cmpA cmpB (Second x) (First b) = Greater
 \<and> these_cmp cmpA cmpB (Both a x) (First b) = Greater
 \<and> these_cmp cmpA cmpB (Both a x) (Second y) = Greater
 \<and> these_cmp cmpA cmpB (First a) (First b) = cmpA a b
 \<and> these_cmp cmpA cmpB (Second x) (Second y) = cmpB x y
 \<and> these_cmp cmpA cmpB (Both a x) (Both b y) =
       (if cmpA a b = Equal then cmpB x y else cmpA a b)
 \<and> either_cmp cmpA cmpB (Left a) (Right y) = Less
 \<and> either_cmp cmpA cmpB (Right x) (Left b) = Greater
 \<and> either_cmp cmpA cmpB (Left a) (Left b) = cmpA a b
 \<and> either_cmp cmpA cmpB (Right x) (Right y) = cmpB x y
 \<and> maybe_cmp cmpB Nothing (Just y) = Less
 \<and> maybe_cmp cmpB (Just x) Nothing = Greater
 \<and> maybe_cmp cmpB Nothing Nothing = Equal
 \<and> maybe_cmp cmpB (Just x) (Just y) = cmpB x y"
  by (cases "cmpA a b") simp_all

subsection \<open>Associativity of the combinations\<close>

lemma either_cmb_simps:
  "either_cmb cmb (Left e) that = Left e"
  "either_cmb cmb (Right x) (Left e) = Left e"
  "either_cmb cmb (Right x) (Right y) = Right (cmb x y)"
  by (simp_all add: either_cmb_def either_zipWith_def either_map_def)

lemma either_cmb_assoc:
  assumes "\<And>x y z. cmb (cmb x y) z = cmb x (cmb y z)"
  shows "either_cmb cmb (either_cmb cmb a b) c = either_cmb cmb a (either_cmb cmb b c)"
  by (cases a; cases b; cases c) (simp_all add: either_cmb_simps assms)

lemma maybe_cmb_assoc:
  assumes "\<And>x y z. cmb (cmb x y) z = cmb x (cmb y z)"
  shows "maybe_cmb cmb (maybe_cmb cmb a b) c = maybe_cmb cmb a (maybe_cmb cmb b c)"
  by (cases a; cases b; cases c) (simp_all add: assms)

lemma these_cmb_assoc:
  assumes "\<And>x y z. cmbA (cmbA x y) z = cmbA x (cmbA y z)"
      and "\<And>x y z. cmbB (cmbB x y) z = cmbB x (cmbB y z)"
  shows "these_cmb cmbA cmbB (these_cmb cmbA cmbB a b) c
       = these_cmb cmbA cmbB a (these_cmb cmbA cmbB b c)"
  by (cases a; cases b; cases c) (simp_all add: assms)

text \<open>
  C6. When the combiners of the payloads are associative, so is the combination of two
  Either values (on the success payload), of two Maybe values, and of two These values
  (on both payloads).
\<close>

theorem containers_cmb_assoc:
  assumes "\<And>x y z. cmbA (cmbA x y) z = cmbA x (cmbA y z)"
      and "\<And>x y z. cmbB (cmbB x y) z = cmbB x (cmbB y z)"
  shows "either_cmb cmbB (either_cmb cmbB ea eb) ec
           = either_cmb cmbB ea (either_cmb cmbB eb ec)
       \<and> maybe_cmb cmbB (maybe_cmb cmbB ma mb) mc
           = maybe_cmb cmbB ma (maybe_cmb cmbB mb mc)
       \<and> these_cmb cmbA cmbB (these_cmb cmbA cmbB ta tb) tc
           = these_cmb cmbA cmbB ta (these_cmb cmbA cmbB tb tc)"
  using either_cmb_assoc [of cmbB] maybe_cmb_assoc [of cmbB] these_cmb_assoc [of cmbA cmbB]
    assms
  by blast

theorem containers_cmb_assoc_witness:
  "either_cmb (@) (either_cmb (@) (Right ''a'') (Right ''b'')) (Left (1::nat))
     = either_cmb (@) (Right ''a'') (either_cmb (@) (Right ''b'') (Left 1))
   \<and> maybe_cmb (@) (maybe_cmb (@) (Just ''a'') Nothing) (Just ''c'')
     = maybe_cmb (@) (Just ''a'') (maybe_cmb (@) Nothing (Just ''c''))
   \<and> these_cmb (+) (@) (these_cmb (+) (@) (First (1::nat)) (Second ''b'')) (Both 2 ''c'')
     = these_cmb (+) (@) (First 1) (these_cmb (+) (@) (Second ''b'') (Both 2 ''c''))"
  using containers_cmb_assoc [of "(+)" "(@)" "Right ''a''" "Right ''b''" "Left (1::nat)"
      "Just ''a''" Nothing "Just ''c''" "First (1::nat)" "Second ''b''" "Both 2 ''c''"]
  by (simp add: add.assoc)

subsection \<open>Short circuit in Either\<close>

text \<open>
  The two models of \<open>flatMap\<close> agree on a callback without side effect, and a counting
  stub is counted when the receiver is a \<open>Right\<close>.
\<close>

lemma either_flatMap_st_pure:
  "either_flatMap_st this (\<lambda>val w. (f val, w)) w = (either_flatMap this f, w)"
  by (cases this) simp_all

lemma either_flatMap_st_Right_counts:
  "either_flatMap_st (Right val) (\<lambda>val n. (f val, Suc n)) n = (f val, Suc n)"
  by simp

text \<open>
  C7. In the two-variant family, chaining a \<open>Left e\<close> with any function gives \<open>Left e\<close>
  back, and the function is not called: with a callback that changes the state of the
  world (a counting stub), the state after \<open>flatMap\<close> is the state before.
\<close>

theorem either_flatMap_Left:
  "either_flatMap (Left e) f = Left e \<and> either_flatMap_st (Left e) g w = (Left e, w)"
  by simp


subsection \<open>Cleanup when a comprehension is halted\<close>

text \<open>
  A body wrapped in \<open>try { ... } finally { cleanup(); }\<close>, driven by \<open>Either.step\<close> or by
  \<open>Maybe.go\<close>: the cleanup runs once, whether the body is halted or runs to its end. Both
  evaluators call \<open>gen.return\<close> when they halt.
\<close>

lemma step_loop_cleanup_once:
  "snd (step_loop (try_finally (generator p) finally_cleanup) err n) = Suc n"
  by (induction p arbitrary: err)
    (simp_all add: finally_cleanup_def split: either.split ret.split)

lemma step_cleanup_once:
  "snd (step (try_finally (generator p) finally_cleanup)) = 1"
  by (simp add: step_def step_loop_cleanup_once)

lemma go_loop_cleanup_once:
  "snd (go_loop undef (try_finally (generator p) finally_cleanup) isHalted n) = Suc n"
  by (induction p arbitrary: isHalted) (simp_all add: finally_cleanup_def split: maybe.split)

lemma go_cleanup_once:
  "snd (go undef (try_finally (generator p) finally_cleanup)) = 1"
  by (simp add: go_def go_loop_cleanup_once)

lemma doImpl_loop_cleanups:
  "snd (doImpl_loop cmb (try_finally (generator p) finally_cleanup) e n)
     = (if yields_First p then n else Suc n)"
  by (induction p arbitrary: e) (simp_all add: finally_cleanup_def split: these.split)

text \<open>
  C2. A comprehension whose body is wrapped in \<open>try { ... } finally { cleanup(); }\<close> and
  that is halted by a bare failure. \<open>doImpl\<close> of these.ts returns as soon as it sees a
  \<open>First\<close> and never calls \<open>return\<close> on the generator: the cleanup has run zero times
  when \<open>doImpl\<close> returns. It runs once exactly when no bare \<open>First\<close> is met, that is when
  the body runs to its end.
\<close>

theorem doImpl_First_skips_cleanup:
  "doImpl cmb (try_finally (generator (YieldStar (First e) k)) finally_cleanup) = (First e, 0)
   \<and> snd (doImpl cmb (try_finally (generator p) finally_cleanup))
       = (if yields_First p then 0 else 1)"
  by (simp add: doImpl_def doImpl_loop_cleanups)

subsection \<open>\<open>Maybe.go\<close> after it has halted the generator\<close>

lemma go_loop_halted: "fst (go_loop undef g True n) = Nothing"
  by (induction g arbitrary: n) (simp_all split: maybe.split)

lemma go_loop_yields_Nothing:
  "yields_Nothing g \<Longrightarrow> fst (go_loop undef g isHalted n) = Nothing"
  by (induction g arbitrary: n) (simp_all add: go_loop_halted split: maybe.splits)

lemma go_loop_no_Nothing:
  "\<not> yields_Nothing g \<Longrightarrow> \<exists>r. fst (go_loop undef g False n) = Just r"
  by (induction g arbitrary: n) (simp_all split: maybe.splits)

text \<open>
  C10. Once \<open>Maybe.go\<close> has met an absent \<open>Maybe\<close>, its result is \<open>Nothing\<close>, whatever the
  generator does when it is told to return: \<open>g\<close> ranges over all generators, so also over
  those whose \<open>finally\<close> block yields present values or returns a value of its own.
\<close>

theorem go_Nothing_after_halt:
  "yields_Nothing g \<Longrightarrow> fst (go undef g) = Nothing"
  by (simp add: go_def go_loop_yields_Nothing)

text \<open>
  The witness is the generator of
  \<open>try { yield* nothing; return 0; } finally { yield* just(1); return 5; }\<close>.
\<close>

theorem go_Nothing_after_halt_witness:
  "yields_Nothing (try_finally (generator (YieldStar Nothing (\<lambda>v::nat. Return (0::nat))))
       (\<lambda>x. Yield (Just 1) (\<lambda>v. Done 5) Done))
   \<and> fst (go 7 (try_finally (generator (YieldStar Nothing (\<lambda>v::nat. Return (0::nat))))
       (\<lambda>x. Yield (Just 1) (\<lambda>v. Done 5) Done))) = Nothing"
  using go_Nothing_after_halt
    [of "try_finally (generator (YieldStar Nothing (\<lambda>v::nat. Return (0::nat))))
       (\<lambda>x. Yield (Just 1) (\<lambda>v. Done 5) Done)" 7]
  by simp


subsection \<open>Concurrent traversal\<close>

lemma foldl_skip: "foldl (\<lambda>st idx. st) st order = st"
  by (induction order) simp_all

lemma traverseIntoPar_empty: "traverseIntoPar [] f b s order = None"
  by (simp add: traverseIntoPar_def foldl_skip)

lemma dispatch_eq:
  "0 \<le> r \<Longrightarrow> dispatch f elems r =
     (r + int (length elems), map (\<lambda>j. f (elems ! j) (nat r + j)) [0..<length elems])"
proof (induction elems arbitrary: r)
  case Nil
  then show ?case by simp
next
  case (Cons elem elems)
  have "nat (r + 1) = Suc (nat r)" using Cons.prems by simp
  with Cons.IH [of "r + 1"] Cons.prems show ?case
    by (simp add: map_upt_Suc del: upt_Suc)
qed

lemma length_filled: "length (filled v D) = (if D = {} then 0 else Suc (Max D))"
  by (simp add: filled_def)

lemma nth_filled:
  "j < length (filled v D) \<Longrightarrow> filled v D ! j = (if j \<in> D then Some (v j) else None)"
  by (simp add: filled_def)

lemma array_set_filled:
  assumes "finite D"
  shows "array_set (filled v D) i (v i) = filled v (insert i D)"
proof (cases "i < length (filled v D)")
  case True
  then have ne: "D \<noteq> {}" and le: "i \<le> Max D"
    by (auto simp: length_filled split: if_splits)
  then have mx: "Max (insert i D) = Max D"
    using assms by (simp add: max_def)
  show ?thesis
    using True ne mx
    by (intro nth_equalityI) (auto simp: array_set_def length_filled nth_filled nth_list_update)
next
  case False
  have mx: "Max (insert i D) = i"
  proof (cases "D = {}")
    case True then show ?thesis by simp
  next
    case ne: False
    with False have lt: "Max D < i" by (simp add: length_filled)
    have "Max (insert i D) = max i (Max D)" using ne assms by simp
    with lt show ?thesis by linarith
  qed
  have notin: "j \<notin> D" if "length (filled v D) \<le> j" for j
  proof
    assume "j \<in> D"
    then have "j \<le> Max D" "D \<noteq> {}" using assms by auto
    with that show False by (simp add: length_filled)
  qed
  show ?thesis
  proof (intro nth_equalityI)
    show "length (array_set (filled v D) i (v i)) = length (filled v (insert i D))"
      using False mx by (simp add: array_set_def length_filled)
  next
    fix j assume "j < length (array_set (filled v D) i (v i))"
    then have j: "j \<le> i" using False by (simp add: array_set_def)
    then have jl: "j < length (filled v (insert i D))" using mx by (simp add: length_filled)
    consider "j < length (filled v D)" | "length (filled v D) \<le> j" "j < i" | "j = i"
      using j by linarith
    then show "array_set (filled v D) i (v i) ! j = filled v (insert i D) ! j"
    proof cases
      case 1
      then show ?thesis using False jl
        by (simp add: array_set_def nth_append nth_filled)
    next
      case 2
      then show ?thesis using False jl notin [of j]
        by (simp add: array_set_def nth_append nth_filled)
    next
      case 3
      then show ?thesis using False jl
        by (simp add: array_set_def nth_append nth_filled)
    qed
  qed
qed

lemma filled_all: "0 < n \<Longrightarrow> filled v {..<n} = map (\<lambda>i. Some (v i)) [0..<n]"
proof -
  assume n: "0 < n"
  then have "{..<n} \<noteq> {}" by auto
  moreover have "Max {..<n} = n - 1"
    using n by (intro Max_eqI) auto
  ultimately show ?thesis using n by (simp add: filled_def)
qed

lemma on_settled_par_after:
  assumes "finite D" "i \<notin> D" "card D < n"
  shows "on_settled ArrayEntryBuilder (Fulfilled (Just (i, v i))) (par_after v n D)
           = par_after v n (insert i D)"
  using assms
  by (simp add: on_settled_def par_after_def ArrayEntryBuilder_def resolve_def Let_def
      array_set_filled)

lemma settle_all_par_after:
  assumes "distinct order" "set order \<inter> D = {}" "finite D" "D \<union> set order \<subseteq> {..<n}"
    and "length started = n" "\<And>i. i < n \<Longrightarrow> started ! i = Fulfilled (Just (i, v i))"
  shows "foldl (\<lambda>st idx. if idx < length started
                          then on_settled ArrayEntryBuilder (started ! idx) st else st)
           (par_after v n D) order = par_after v n (D \<union> set order)"
  using assms(1-4)
proof (induction order arbitrary: D)
  case Nil
  then show ?case by simp
next
  case (Cons i order)
  have i: "i < n" "i \<notin> D" using Cons.prems by auto
  have "card (insert i D) \<le> card {..<n}"
    using Cons.prems by (intro card_mono) auto
  then have c: "card D < n" using i Cons.prems(3) by simp
  have "foldl (\<lambda>st idx. if idx < length started
                          then on_settled ArrayEntryBuilder (started ! idx) st else st)
           (par_after v n (insert i D)) order = par_after v n (insert i D \<union> set order)"
    using Cons.prems by (intro Cons.IH) auto
  then show ?case
    using i c assms(5,6) Cons.prems(3) by (simp add: on_settled_par_after)
qed

lemma traverseIntoPar_ArrayEntryBuilder:
  fixes f :: "'t \<Rightarrow> nat \<Rightarrow> ((nat \<times> 'a) maybe, 'x) settled"
  assumes "elems \<noteq> []" "distinct order" "set order = {..<length elems}"
    and "\<And>i. i < length elems \<Longrightarrow> f (elems ! i) i = Fulfilled (Just (i, v i))"
  shows "traverseIntoPar elems f ArrayEntryBuilder [] order
           = Some (Fulfilled (Just (map (\<lambda>i. Some (v i)) [0..<length elems])))"
proof -
  let ?n = "length elems"
  let ?started = "map (\<lambda>j. f (elems ! j) j) [0..<?n]"
  have n: "0 < ?n" using assms(1) by simp
  have d: "dispatch f elems 0 = (int ?n, ?started)"
    using dispatch_eq [of 0 f elems] by simp
  have init: "\<lparr>remaining = int ?n, builder_state = [], promise = None\<rparr>
                = (par_after v ?n {} :: ('a option list, 'a option list, 'x) par_state)"
    using n by (simp add: par_after_def filled_def)
  have "foldl (\<lambda>st idx. if idx < length ?started
                          then on_settled ArrayEntryBuilder (?started ! idx) st else st)
           (par_after v ?n {}) order
          = (par_after v ?n ({} \<union> set order) :: ('a option list, 'a option list, 'x) par_state)"
    using assms(2,3,4) by (intro settle_all_par_after) auto
  then show ?thesis
    using n assms(3) by (simp add: traverseIntoPar_def d init par_after_def filled_all)
qed


text \<open>
  C8. Concurrent traversal of the optional family keeps the order of submission. When
  every computation is fulfilled with a present value, \<open>v i\<close> for the element of index \<open>i\<close>,
  and the computations settle in any order (\<open>order\<close> is any arrangement of all the
  indices), the promise returned by \<open>traversePar\<close> is fulfilled with the array of the
  values \<open>v 0, v 1, ...\<close> in the order of the indices: each value is stored under its own
  index. The input is not empty.
\<close>

theorem traversePar_index_order:
  assumes "elems \<noteq> []" "distinct order" "set order = {..<length elems}"
    and "\<And>i. i < length elems \<Longrightarrow> f (elems ! i) i = Fulfilled (Just (v i))"
  shows "traversePar elems f order
           = Some (Fulfilled (Just (map (\<lambda>i. Some (v i)) [0..<length elems])))"
  unfolding traversePar_def
  using assms by (intro traverseIntoPar_ArrayEntryBuilder) (simp_all add: maybe_map_def)

text \<open>Three computations that settle in the order 2, 0, 1.\<close>

theorem traversePar_index_order_witness:
  "traversePar [10, 20, 30 :: nat] (\<lambda>elem idx. Fulfilled (Just (elem + 1))) [2, 0, 1]
     = (Some (Fulfilled (Just [Some 11, Some 21, Some 31]))
          :: (nat option list maybe, unit) settled option)"
proof -
  have s: "set [2, 0, 1 :: nat] = {..<length [10, 20, 30 :: nat]}" by auto
  have f: "(Fulfilled (Just ([10, 20, 30 :: nat] ! i + 1)) :: (nat maybe, unit) settled)
             = Fulfilled (Just ([10, 20, 30] ! i + 1))" for i by simp
  show ?thesis
    using traversePar_index_order
      [of "[10, 20, 30 :: nat]" "[2, 0, 1]" "\<lambda>elem idx. Fulfilled (Just (elem + 1))"
          "\<lambda>i. [10, 20, 30] ! i + 1", OF _ _ s f]
    by (simp add: upt_rec)
qed

text \<open>
  C9. On an empty input \<open>traverseIntoPar\<close> starts no computation: the counter stays at
  zero, no handler is attached, and neither \<open>resolve\<close> nor \<open>reject\<close> is ever called. The
  promise it returns stays pending whatever happens afterwards, and so does the promise
  of \<open>traversePar\<close>, \<open>allPar\<close>, \<open>allPropsPar\<close> and \<open>forEachPar\<close>, which hand their input to
  \<open>traverseIntoPar\<close>.
\<close>

theorem par_empty_never_settles:
  "traverseIntoPar [] f b s order = None
   \<and> traversePar [] g order = None
   \<and> allPar [] order = None
   \<and> allPropsPar [] order = None
   \<and> forEachPar [] f order = None"
  by (simp add: traverseIntoPar_empty traversePar_def allPar_def allPropsPar_def
      traverseEntriesPar_def traverseEntriesIntoPar_def forEachPar_def)

end
